theory Spec2Isabelle
  imports Main "HOL-Library.AList" "HOL-Library.Sublist"
begin

section \<open>The header \<open>definitions.h\<close> and the preprocessor that reads it\<close>

text \<open>
  The repository's native bridge has one header, \<open>definitions.h\<close>: an include guard
  around thirteen object-like macros, each with a string literal as its replacement
  list, under four \<open>//\<close> headings. The header is modelled line by line, as the
  preprocessor sees it, and the preprocessor's directives \<open>#ifndef\<close>, \<open>#define\<close>
  and \<open>#endif\<close> are given their meaning on a macro table.
\<close>

subsection \<open>Tokens and lines\<close>

text \<open>
  The only preprocessing tokens of the header are identifiers and string literals
  (a string literal is kept without its quotes).
\<close>

datatype token = Ident string | StrLit string

text \<open>
  A line of the header: blank, a \<open>/* ... */\<close> comment (with its physical lines), a
  \<open>//\<close> comment, or one of the three directives. The trailing comment of
  \<open>#endif /* DEFINITIONS_H */\<close> is dropped, as translation phase 3 does.
\<close>

datatype line =
    Blank
  | BlockComment "string list"
  | LineComment string
  | Ifndef string
  | Define string "token list"
  | Endif

definition definitions_h :: "line list" where
  "definitions_h =
    [ BlockComment
        [ '''',
          '' * To change this license header, choose License Headers in Project Properties.'',
          '' * To change this template file, choose Tools | Templates'',
          '' * and open the template in the editor.'',
          '' '' ],
      Blank,
      BlockComment
        [ '' '',
          '' * File:   definitions.h'',
          '' * Author: adrian.gonzalez'',
          '' *'',
          '' * Created on 31 de mayo de 2016, 18:38'',
          '' '' ],
      Blank,
      Ifndef ''DEFINITIONS_H'',
      Define ''DEFINITIONS_H'' [],
      Blank,
      LineComment ''Classes'',
      Define ''CLS_STRING'' [StrLit ''Ljava/lang/String;''],
      Define ''CLS_LEAFBBXITERATOR''
        [StrLit ''es/usc/citius/lab/joctomap/iterators/LeafBBXIterator''],
      Define ''CLS_POINT3D''
        [StrLit ''es/usc/citius/lab/motionplanner/core/spatial/Point3D''],
      Define ''CLS_JOCTREENODE'' [StrLit ''es/usc/citius/lab/joctomap/octree/JOctreeNode''],
      Define ''CLS_JOCTREEKEY'' [StrLit ''es/usc/citius/lab/joctomap/octree/JOctreeKey''],
      Define ''CLS_JOCTREE'' [StrLit ''es/usc/citius/lab/joctomap/octree/JOctree''],
      Blank,
      LineComment ''Fields'',
      Define ''FIELD_PATH'' [StrLit ''path''],
      Define ''FIELD_X'' [StrLit ''x''],
      Define ''FIELD_Y'' [StrLit ''y''],
      Define ''FIELD_Z'' [StrLit ''z''],
      Blank,
      LineComment ''Methods'',
      Define ''METHOD_CONSTRUCTOR'' [StrLit ''<init>''],
      Blank,
      LineComment ''Signatures'',
      Define ''SIGNATURE_FLOAT'' [StrLit ''F''],
      Define ''SIGNATURE_INT'' [StrLit ''I''],
      Blank,
      Endif ]"

subsection \<open>Conditional inclusion and macro definition\<close>

text \<open>
  The macro table is an association list in order of first definition. A \<open>#define\<close>
  of a name that is already in the table replaces its replacement list in place (the
  compilers accept a redefinition, with a diagnostic). The header itself defines no
  name twice.
\<close>

type_synonym macro_env = "(string \<times> token list) list"

datatype pp_error = EndifWithoutIf | UnterminatedConditional

text \<open>
  The stack of open conditionals holds, for each, whether its condition held; the
  lines of a group are processed only when every open conditional holds.
\<close>

definition active :: "bool list \<Rightarrow> bool" where
  "active conds = list_all (\<lambda>b. b) conds"

fun directive :: "line \<Rightarrow> macro_env \<times> bool list \<Rightarrow> pp_error + macro_env \<times> bool list" where
  "directive Blank (env, conds) = Inr (env, conds)"
| "directive (BlockComment c) (env, conds) = Inr (env, conds)"
| "directive (LineComment c) (env, conds) = Inr (env, conds)"
| "directive (Ifndef n) (env, conds) = Inr (env, (map_of env n = None) # conds)"
| "directive (Define n body) (env, conds) =
     Inr (if active conds then (AList.update n body env, conds) else (env, conds))"
| "directive Endif (env, conds) =
     (case conds of [] \<Rightarrow> Inl EndifWithoutIf | c # cs \<Rightarrow> Inr (env, cs))"

fun preprocess :: "line list \<Rightarrow> macro_env \<times> bool list \<Rightarrow> pp_error + macro_env" where
  "preprocess [] (env, conds) = (if conds = [] then Inr env else Inl UnterminatedConditional)"
| "preprocess (l # ls) st =
     (case directive l st of Inl e \<Rightarrow> Inl e | Inr st' \<Rightarrow> preprocess ls st')"

text \<open>\<open>#include\<close> of a header into a translation unit whose macro table is \<open>env\<close>.\<close>

definition include_file :: "line list \<Rightarrow> macro_env \<Rightarrow> pp_error + macro_env" where
  "include_file hdr env = preprocess hdr (env, [])"

text \<open>Including the header a second time, after a first inclusion that succeeded.\<close>

definition include_twice :: "line list \<Rightarrow> macro_env \<Rightarrow> pp_error + macro_env" where
  "include_twice hdr env =
     (case include_file hdr env of Inl e \<Rightarrow> Inl e | Inr env' \<Rightarrow> include_file hdr env')"

subsection \<open>Macro replacement\<close>

text \<open>
  An identifier that names a macro is replaced by the macro's replacement list, which
  is rescanned with that macro's name no longer replaceable; string literals and other
  identifiers stay.
\<close>

function expand :: "macro_env \<Rightarrow> token list \<Rightarrow> token list" where
  "expand env [] = []"
| "expand env (StrLit s # ts) = StrLit s # expand env ts"
| "expand env (Ident n # ts) =
     (case map_of env n of
        None \<Rightarrow> Ident n # expand env ts
      | Some body \<Rightarrow> expand (AList.delete n env) body @ expand env ts)"
  by pat_completeness auto

lemma delete_shorter: "map_of env n = Some body \<Longrightarrow> length (AList.delete n env) < length env"
proof -
  assume "map_of env n = Some body"
  then have "(n, body) \<in> set env"
    by (rule map_of_SomeD)
  then have "length (filter (\<lambda>(k, v). n \<noteq> k) env) < length env"
    by (rule length_filter_less) simp
  then show ?thesis
    by (simp add: AList.delete_eq)
qed

termination expand
  by (relation "measures [\<lambda>(env, ts). length env, \<lambda>(env, ts). length ts]")
     (auto simp: delete_shorter)

text \<open>
  What a translation unit that includes only the header gets when it writes the name
  \<open>n\<close>: the tokens the name expands to, and the string, when they are exactly one
  string literal.
\<close>

definition macro_expansion :: "line list \<Rightarrow> string \<Rightarrow> token list option" where
  "macro_expansion hdr n =
     (case include_file hdr [] of Inl e \<Rightarrow> None | Inr env \<Rightarrow> Some (expand env [Ident n]))"

definition macro_string :: "line list \<Rightarrow> string \<Rightarrow> string option" where
  "macro_string hdr n =
     (case macro_expansion hdr n of Some [StrLit s] \<Rightarrow> Some s | _ \<Rightarrow> None)"

subsection \<open>The header's layout: definitions and headings\<close>

text \<open>The \<open>#define\<close> lines of a header, in order, whatever conditional they are under.\<close>

definition macro_definitions :: "line list \<Rightarrow> (string \<times> token list) list" where
  "macro_definitions hdr =
     List.map_filter (\<lambda>l. case l of Define n body \<Rightarrow> Some (n, body) | _ \<Rightarrow> None) hdr"

text \<open>A replacement list that is one string literal and nothing else.\<close>

definition is_string_literal :: "token list \<Rightarrow> bool" where
  "is_string_literal body = (case body of [StrLit s] \<Rightarrow> True | _ \<Rightarrow> False)"

text \<open>
  The header groups its definitions under \<open>//\<close> headings. \<open>sections\<close> gives the
  definitions that come before the first heading, and then every heading with the
  definitions between it and the next heading.
\<close>

fun sections :: "line list \<Rightarrow>
    (string \<times> token list) list \<times> (string \<times> (string \<times> token list) list) list" where
  "sections [] = ([], [])"
| "sections (LineComment h # ls) = (case sections ls of (ds, secs) \<Rightarrow> ([], (h, ds) # secs))"
| "sections (Define n body # ls) = (case sections ls of (ds, secs) \<Rightarrow> ((n, body) # ds, secs))"
| "sections (l # ls) = sections ls"

definition category_groups :: "line list \<Rightarrow> (string \<times> (string \<times> token list) list) list" where
  "category_groups hdr = snd (sections hdr)"

text \<open>
  The string constants of a macro table: the names whose replacement list is one string
  literal, with that string; and those a translation unit has after including only the
  header.
\<close>

definition string_constants :: "macro_env \<Rightarrow> (string \<times> string) list" where
  "string_constants env =
     List.map_filter (\<lambda>(n, body). case body of [StrLit s] \<Rightarrow> Some (n, s) | _ \<Rightarrow> None) env"

definition header_constants :: "line list \<Rightarrow> (string \<times> string) list" where
  "header_constants hdr =
     (case include_file hdr [] of Inl e \<Rightarrow> [] | Inr env \<Rightarrow> string_constants env)"

subsection \<open>The forms of JNI strings\<close>

text \<open>
  The predicates the properties of the constants are stated with. They follow the JNI
  and class-file conventions the header's values are written in: a class is named for
  \<open>FindClass\<close> by its internal name, Java identifiers separated by \<open>/\<close>; a type
  signature is a primitive code (one of \<open>Z B C S I J F D\<close>), \<open>L\<close> internal name \<open>;\<close>
  for a class, \<open>[\<close> and a type for an array, or \<open>(\<close> argument types \<open>)\<close> and a return
  type (\<open>V\<close> or a type) for a method. Identifiers are taken over ASCII letters, digits,
  \<open>_\<close> and \<open>$\<close>.
\<close>

definition java_letter :: "char \<Rightarrow> bool" where
  "java_letter c = (c \<in> set ''abcdefghijklmnopqrstuvwxyzABCDEFGHIJKLMNOPQRSTUVWXYZ_$'')"

definition java_digit :: "char \<Rightarrow> bool" where
  "java_digit c = (c \<in> set ''0123456789'')"

definition java_identifier :: "string \<Rightarrow> bool" where
  "java_identifier s =
     (case s of [] \<Rightarrow> False
      | c # cs \<Rightarrow> java_letter c \<and> list_all (\<lambda>d. java_letter d \<or> java_digit d) cs)"

text \<open>The pieces of a string between the occurrences of a separator (at least one piece).\<close>

fun split_on :: "char \<Rightarrow> string \<Rightarrow> string list" where
  "split_on d [] = [[]]"
| "split_on d (c # cs) =
     (if c = d then [] # split_on d cs
      else (case split_on d cs of [] \<Rightarrow> [[c]] | w # ws \<Rightarrow> (c # w) # ws))"

definition internal_class_name :: "string \<Rightarrow> bool" where
  "internal_class_name s = list_all java_identifier (split_on CHR ''/'' s)"

text \<open>A package-qualified class path: an internal name with at least one package.\<close>

definition qualified_class_path :: "string \<Rightarrow> bool" where
  "qualified_class_path s = (internal_class_name s \<and> CHR ''/'' \<in> set s)"

text \<open>One type at the front of a string: what follows it, or \<open>None\<close> when there is none.\<close>

fun take_type :: "string \<Rightarrow> string option" where
  "take_type [] = None"
| "take_type (c # cs) =
     (if c \<in> set ''ZBCSIJFD'' then Some cs
      else if c = CHR ''['' then take_type cs
      else if c = CHR ''L'' then
        (case dropWhile (\<lambda>x. x \<noteq> CHR '';'') cs of
           [] \<Rightarrow> None
         | semi # rest \<Rightarrow>
             if internal_class_name (takeWhile (\<lambda>x. x \<noteq> CHR '';'') cs) then Some rest
             else None)
      else None)"

lemma take_type_shorter: "take_type s = Some r \<Longrightarrow> length r < length s"
proof (induction s arbitrary: r)
  case Nil
  then show ?case by simp
next
  case (Cons c cs)
  have dw: "length rest < Suc (length cs)" if "dropWhile P cs = semi # rest" for P semi rest
  proof -
    have "length (dropWhile P cs) \<le> length cs" by (rule length_dropWhile_le)
    with that show ?thesis by simp
  qed
  from Cons show ?case
    by (auto split: if_splits list.splits dest: dw)
qed

text \<open>The argument types of a method signature, up to and with the closing parenthesis.\<close>

function take_types :: "string \<Rightarrow> string option" where
  "take_types [] = None"
| "take_types (c # cs) =
     (if c = CHR '')'' then Some cs
      else (case take_type (c # cs) of None \<Rightarrow> None | Some rest \<Rightarrow> take_types rest))"
  by pat_completeness auto

termination take_types
  by (relation "measure length") (auto dest: take_type_shorter simp del: take_type.simps)

definition field_signature :: "string \<Rightarrow> bool" where
  "field_signature s = (take_type s = Some [])"

definition method_signature :: "string \<Rightarrow> bool" where
  "method_signature s =
     (case s of [] \<Rightarrow> False
      | c # cs \<Rightarrow> c = CHR ''('' \<and>
          (case take_types cs of None \<Rightarrow> False
           | Some ret \<Rightarrow> ret = ''V'' \<or> field_signature ret))"

definition jni_type_signature :: "string \<Rightarrow> bool" where
  "jni_type_signature s = (field_signature s \<or> method_signature s)"

definition primitive_signature :: "string \<Rightarrow> bool" where
  "primitive_signature s = (case s of [c] \<Rightarrow> c \<in> set ''ZBCSIJFD'' | _ \<Rightarrow> False)"

text \<open>
  The two shapes a class constant of the header is written in: the internal name, with
  \<open>/\<close> between packages, no \<open>.\<close>, no \<open>L\<close> in front and no \<open>;\<close> at the end; and the
  reference descriptor \<open>L...;\<close>.
\<close>

definition internal_name_form :: "string \<Rightarrow> bool" where
  "internal_name_form s =
     (CHR ''/'' \<in> set s \<and> CHR ''.'' \<notin> set s \<and> take 1 s \<noteq> ''L'' \<and> take 1 (rev s) \<noteq> '';'')"

definition reference_descriptor_form :: "string \<Rightarrow> bool" where
  "reference_descriptor_form s = (2 \<le> length s \<and> take 1 s = ''L'' \<and> take 1 (rev s) = '';'')"

section \<open>Evaluating the header\<close>

text \<open>The macro table after the header is included into an empty one.\<close>

lemma include_definitions_h:
  "include_file definitions_h [] = Inr
    [ (''DEFINITIONS_H'', []),
      (''CLS_STRING'', [StrLit ''Ljava/lang/String;'']),
      (''CLS_LEAFBBXITERATOR'', [StrLit ''es/usc/citius/lab/joctomap/iterators/LeafBBXIterator'']),
      (''CLS_POINT3D'', [StrLit ''es/usc/citius/lab/motionplanner/core/spatial/Point3D'']),
      (''CLS_JOCTREENODE'', [StrLit ''es/usc/citius/lab/joctomap/octree/JOctreeNode'']),
      (''CLS_JOCTREEKEY'', [StrLit ''es/usc/citius/lab/joctomap/octree/JOctreeKey'']),
      (''CLS_JOCTREE'', [StrLit ''es/usc/citius/lab/joctomap/octree/JOctree'']),
      (''FIELD_PATH'', [StrLit ''path'']),
      (''FIELD_X'', [StrLit ''x'']),
      (''FIELD_Y'', [StrLit ''y'']),
      (''FIELD_Z'', [StrLit ''z'']),
      (''METHOD_CONSTRUCTOR'', [StrLit ''<init>'']),
      (''SIGNATURE_FLOAT'', [StrLit ''F'']),
      (''SIGNATURE_INT'', [StrLit ''I'']) ]"
  by (simp add: include_file_def definitions_h_def active_def)

lemma macro_definitions_definitions_h:
  "macro_definitions definitions_h =
    [ (''DEFINITIONS_H'', []),
      (''CLS_STRING'', [StrLit ''Ljava/lang/String;'']),
      (''CLS_LEAFBBXITERATOR'', [StrLit ''es/usc/citius/lab/joctomap/iterators/LeafBBXIterator'']),
      (''CLS_POINT3D'', [StrLit ''es/usc/citius/lab/motionplanner/core/spatial/Point3D'']),
      (''CLS_JOCTREENODE'', [StrLit ''es/usc/citius/lab/joctomap/octree/JOctreeNode'']),
      (''CLS_JOCTREEKEY'', [StrLit ''es/usc/citius/lab/joctomap/octree/JOctreeKey'']),
      (''CLS_JOCTREE'', [StrLit ''es/usc/citius/lab/joctomap/octree/JOctree'']),
      (''FIELD_PATH'', [StrLit ''path'']),
      (''FIELD_X'', [StrLit ''x'']),
      (''FIELD_Y'', [StrLit ''y'']),
      (''FIELD_Z'', [StrLit ''z'']),
      (''METHOD_CONSTRUCTOR'', [StrLit ''<init>'']),
      (''SIGNATURE_FLOAT'', [StrLit ''F'']),
      (''SIGNATURE_INT'', [StrLit ''I'']) ]"
  by (simp add: macro_definitions_def definitions_h_def)

lemma header_constants_definitions_h:
  "header_constants definitions_h =
    [ (''CLS_STRING'', ''Ljava/lang/String;''),
      (''CLS_LEAFBBXITERATOR'', ''es/usc/citius/lab/joctomap/iterators/LeafBBXIterator''),
      (''CLS_POINT3D'', ''es/usc/citius/lab/motionplanner/core/spatial/Point3D''),
      (''CLS_JOCTREENODE'', ''es/usc/citius/lab/joctomap/octree/JOctreeNode''),
      (''CLS_JOCTREEKEY'', ''es/usc/citius/lab/joctomap/octree/JOctreeKey''),
      (''CLS_JOCTREE'', ''es/usc/citius/lab/joctomap/octree/JOctree''),
      (''FIELD_PATH'', ''path''),
      (''FIELD_X'', ''x''),
      (''FIELD_Y'', ''y''),
      (''FIELD_Z'', ''z''),
      (''METHOD_CONSTRUCTOR'', ''<init>''),
      (''SIGNATURE_FLOAT'', ''F''),
      (''SIGNATURE_INT'', ''I'') ]"
  by (simp add: header_constants_def include_definitions_h string_constants_def)

lemma category_groups_definitions_h:
  "category_groups definitions_h =
    [ (''Classes'',
        [ (''CLS_STRING'', [StrLit ''Ljava/lang/String;'']),
          (''CLS_LEAFBBXITERATOR'',
             [StrLit ''es/usc/citius/lab/joctomap/iterators/LeafBBXIterator'']),
          (''CLS_POINT3D'', [StrLit ''es/usc/citius/lab/motionplanner/core/spatial/Point3D'']),
          (''CLS_JOCTREENODE'', [StrLit ''es/usc/citius/lab/joctomap/octree/JOctreeNode'']),
          (''CLS_JOCTREEKEY'', [StrLit ''es/usc/citius/lab/joctomap/octree/JOctreeKey'']),
          (''CLS_JOCTREE'', [StrLit ''es/usc/citius/lab/joctomap/octree/JOctree'']) ]),
      (''Fields'',
        [ (''FIELD_PATH'', [StrLit ''path'']),
          (''FIELD_X'', [StrLit ''x'']),
          (''FIELD_Y'', [StrLit ''y'']),
          (''FIELD_Z'', [StrLit ''z'']) ]),
      (''Methods'', [ (''METHOD_CONSTRUCTOR'', [StrLit ''<init>'']) ]),
      (''Signatures'',
        [ (''SIGNATURE_FLOAT'', [StrLit ''F'']),
          (''SIGNATURE_INT'', [StrLit ''I'']) ]) ]"
  by (simp add: category_groups_def definitions_h_def)

lemmas jni_forms =
  qualified_class_path_def internal_class_name_def java_identifier_def java_letter_def
  java_digit_def jni_type_signature_def field_signature_def method_signature_def
  primitive_signature_def internal_name_form_def reference_descriptor_form_def

section \<open>Values of the constants\<close>

text \<open>
  C1: after inclusion of the header, \<open>SIGNATURE_FLOAT\<close> is the one-character string
  \<open>F\<close>, \<open>SIGNATURE_INT\<close> is the one-character string \<open>I\<close>, and \<open>CLS_STRING\<close> is the
  String reference descriptor \<open>Ljava/lang/String;\<close>.
\<close>

theorem signature_constants_values:
  "macro_string definitions_h ''SIGNATURE_FLOAT'' = Some [CHR ''F'']
   \<and> macro_string definitions_h ''SIGNATURE_INT'' = Some [CHR ''I'']
   \<and> macro_string definitions_h ''CLS_STRING'' = Some ''Ljava/lang/String;''"
  by (simp add: macro_string_def macro_expansion_def include_definitions_h)

text \<open>
  C2: \<open>CLS_JOCTREE\<close> is exactly the string \<open>es/usc/citius/lab/joctomap/octree/JOctree\<close>,
  which is a package-qualified class path whose class is \<open>JOctree\<close>.
\<close>

theorem cls_joctree_value:
  "macro_string definitions_h ''CLS_JOCTREE'' = Some ''es/usc/citius/lab/joctomap/octree/JOctree''
   \<and> qualified_class_path ''es/usc/citius/lab/joctomap/octree/JOctree''
   \<and> last (split_on CHR ''/'' ''es/usc/citius/lab/joctomap/octree/JOctree'') = ''JOctree''"
  by (simp add: macro_string_def macro_expansion_def include_definitions_h jni_forms)

section \<open>The kinds of constants\<close>

text \<open>
  C3: exactly five constants of the header have a package-qualified class path as
  their value: \<open>CLS_LEAFBBXITERATOR\<close>, \<open>CLS_POINT3D\<close>, \<open>CLS_JOCTREENODE\<close>,
  \<open>CLS_JOCTREEKEY\<close> and \<open>CLS_JOCTREE\<close>. (The sixth definition under the heading
  \<open>Classes\<close>, \<open>CLS_STRING\<close>, has a reference descriptor as its value, not a class
  path.)
\<close>

theorem five_class_path_constants:
  "filter (\<lambda>(n, v). qualified_class_path v) (header_constants definitions_h) =
     [ (''CLS_LEAFBBXITERATOR'', ''es/usc/citius/lab/joctomap/iterators/LeafBBXIterator''),
       (''CLS_POINT3D'', ''es/usc/citius/lab/motionplanner/core/spatial/Point3D''),
       (''CLS_JOCTREENODE'', ''es/usc/citius/lab/joctomap/octree/JOctreeNode''),
       (''CLS_JOCTREEKEY'', ''es/usc/citius/lab/joctomap/octree/JOctreeKey''),
       (''CLS_JOCTREE'', ''es/usc/citius/lab/joctomap/octree/JOctree'') ]
   \<and> length (filter (\<lambda>(n, v). qualified_class_path v) (header_constants definitions_h)) = 5"
  by (simp add: header_constants_definitions_h jni_forms)

text \<open>
  C4: the header has exactly four field-name constants, \<open>FIELD_PATH\<close>, \<open>FIELD_X\<close>,
  \<open>FIELD_Y\<close> and \<open>FIELD_Z\<close>, with the values \<open>path\<close>, \<open>x\<close>, \<open>y\<close> and \<open>z\<close>: they are
  the definitions under the heading \<open>Fields\<close>, and the constants named \<open>FIELD_...\<close>.
\<close>

theorem four_field_name_constants:
  "map_of (category_groups definitions_h) ''Fields'' =
     Some [ (''FIELD_PATH'', [StrLit ''path'']), (''FIELD_X'', [StrLit ''x'']),
            (''FIELD_Y'', [StrLit ''y'']), (''FIELD_Z'', [StrLit ''z'']) ]
   \<and> filter (\<lambda>(n, v). prefix ''FIELD_'' n) (header_constants definitions_h) =
     [ (''FIELD_PATH'', ''path''), (''FIELD_X'', ''x''), (''FIELD_Y'', ''y''), (''FIELD_Z'', ''z'') ]"
  by (simp add: header_constants_definitions_h category_groups_definitions_h)

text \<open>
  C5: the header has exactly one method-name constant, \<open>METHOD_CONSTRUCTOR\<close>, with the
  value \<open><init>\<close>: it is the one definition under the heading \<open>Methods\<close>, and the one
  constant named \<open>METHOD_...\<close>.
\<close>

theorem one_method_name_constant:
  "map_of (category_groups definitions_h) ''Methods'' =
     Some [ (''METHOD_CONSTRUCTOR'', [StrLit ''<init>'']) ]
   \<and> filter (\<lambda>(n, v). prefix ''METHOD_'' n) (header_constants definitions_h) =
     [ (''METHOD_CONSTRUCTOR'', ''<init>'') ]"
  by (simp add: header_constants_definitions_h category_groups_definitions_h)

text \<open>
  C6, as stated, fails: besides \<open>SIGNATURE_FLOAT\<close> and \<open>SIGNATURE_INT\<close>, the constant
  \<open>CLS_STRING\<close> is a JNI type-signature string, so the constants whose value is a type
  signature are not two.
\<close>

theorem cls_string_is_type_signature:
  "map_of (header_constants definitions_h) ''CLS_STRING'' = Some ''Ljava/lang/String;''
   \<and> jni_type_signature ''Ljava/lang/String;''
   \<and> length (filter (\<lambda>(n, v). jni_type_signature v) (header_constants definitions_h)) \<noteq> 2"
  by (simp add: header_constants_definitions_h jni_forms)

text \<open>
  C6, amended: exactly two constants of the header are primitive type descriptors,
  \<open>SIGNATURE_FLOAT\<close> (\<open>F\<close>) and \<open>SIGNATURE_INT\<close> (\<open>I\<close>), and they are the definitions
  under the heading \<open>Signatures\<close>; exactly one other constant, \<open>CLS_STRING\<close>, is a JNI
  type-signature string (the reference descriptor of String).
\<close>

theorem type_signature_constants:
  "filter (\<lambda>(n, v). primitive_signature v) (header_constants definitions_h) =
     [ (''SIGNATURE_FLOAT'', ''F''), (''SIGNATURE_INT'', ''I'') ]
   \<and> map_of (category_groups definitions_h) ''Signatures'' =
     Some [ (''SIGNATURE_FLOAT'', [StrLit ''F'']), (''SIGNATURE_INT'', [StrLit ''I'']) ]
   \<and> filter (\<lambda>(n, v). jni_type_signature v) (header_constants definitions_h) =
     [ (''CLS_STRING'', ''Ljava/lang/String;''),
       (''SIGNATURE_FLOAT'', ''F''), (''SIGNATURE_INT'', ''I'') ]"
  by (simp add: header_constants_definitions_h category_groups_definitions_h jni_forms)

text \<open>C7, as stated, fails: the header does not have six groups of constants.\<close>

theorem category_groups_not_six: "length (category_groups definitions_h) \<noteq> 6"
  by (simp add: category_groups_definitions_h)

text \<open>
  C7, amended: the string constants of the header partition into exactly four groups,
  under the headings \<open>Classes\<close> (six constants), \<open>Fields\<close> (four), \<open>Methods\<close> (one) and
  \<open>Signatures\<close> (two): every definition in a group is a string literal, the groups
  together are the string-literal definitions of the header, which are the constants
  a translation unit gets, and no name is in two groups.
\<close>

theorem four_category_groups:
  "map (\<lambda>(h, ds). (h, map fst ds)) (category_groups definitions_h) =
     [ (''Classes'', [''CLS_STRING'', ''CLS_LEAFBBXITERATOR'', ''CLS_POINT3D'',
                     ''CLS_JOCTREENODE'', ''CLS_JOCTREEKEY'', ''CLS_JOCTREE'']),
       (''Fields'', [''FIELD_PATH'', ''FIELD_X'', ''FIELD_Y'', ''FIELD_Z'']),
       (''Methods'', [''METHOD_CONSTRUCTOR'']),
       (''Signatures'', [''SIGNATURE_FLOAT'', ''SIGNATURE_INT'']) ]
   \<and> length (category_groups definitions_h) = 4
   \<and> list_all (\<lambda>(h, ds). list_all (\<lambda>(n, body). is_string_literal body) ds)
        (category_groups definitions_h)
   \<and> concat (map snd (category_groups definitions_h)) =
       filter (\<lambda>(n, body). is_string_literal body) (macro_definitions definitions_h)
   \<and> map fst (concat (map snd (category_groups definitions_h))) =
       map fst (header_constants definitions_h)
   \<and> distinct (map fst (concat (map snd (category_groups definitions_h))))"
  by (simp add: category_groups_definitions_h header_constants_definitions_h
      macro_definitions_definitions_h is_string_literal_def)

text \<open>
  C10: each of \<open>CLS_LEAFBBXITERATOR\<close>, \<open>CLS_POINT3D\<close>, \<open>CLS_JOCTREENODE\<close>,
  \<open>CLS_JOCTREEKEY\<close> and \<open>CLS_JOCTREE\<close> is in internal-name form (it has \<open>/\<close> as
  separator, no \<open>.\<close>, no \<open>L\<close> in front and no \<open>;\<close> at the end) and is a
  package-qualified class path; \<open>CLS_STRING\<close> is not, and it is the only constant of
  the header in the reference-descriptor form \<open>L...;\<close>.
\<close>

theorem class_constant_forms:
  "map (\<lambda>(n, v). (n, internal_name_form v, qualified_class_path v, reference_descriptor_form v))
       (filter (\<lambda>(n, v). prefix ''CLS_'' n) (header_constants definitions_h)) =
     [ (''CLS_STRING'', False, False, True),
       (''CLS_LEAFBBXITERATOR'', True, True, False),
       (''CLS_POINT3D'', True, True, False),
       (''CLS_JOCTREENODE'', True, True, False),
       (''CLS_JOCTREEKEY'', True, True, False),
       (''CLS_JOCTREE'', True, True, False) ]
   \<and> map fst (filter (\<lambda>(n, v). reference_descriptor_form v) (header_constants definitions_h)) =
     [''CLS_STRING'']"
  by (simp add: header_constants_definitions_h jni_forms)

section \<open>Inclusion into any translation unit\<close>

text \<open>The table after a sequence of definitions: the last definition of a name wins.\<close>

lemma map_of_fold_update:
  "map_of (fold (\<lambda>(n, body). AList.update n body) ds env) k =
     (case map_of (rev ds) k of Some body \<Rightarrow> Some body | None \<Rightarrow> map_of env k)"
proof (induction ds arbitrary: env)
  case Nil
  show ?case by simp
next
  case (Cons d ds)
  obtain n body where d: "d = (n, body)" by (cases d)
  show ?case
    by (simp add: d Cons.IH AList.update_conv' map_add_def split: option.splits)
qed

text \<open>With the guard already defined, the header changes nothing.\<close>

lemma include_guard_defined:
  "map_of env ''DEFINITIONS_H'' = Some body \<Longrightarrow> include_file definitions_h env = Inr env"
  by (simp add: include_file_def definitions_h_def active_def)

text \<open>With the guard not defined, every definition of the header is made, in order.\<close>

lemma include_guard_undefined:
  "map_of env ''DEFINITIONS_H'' = None \<Longrightarrow>
   include_file definitions_h env =
     Inr (fold (\<lambda>(n, body). AList.update n body) (macro_definitions definitions_h) env)"
  by (simp add: include_file_def definitions_h_def active_def macro_definitions_def)

lemma fresh_inclusion_constants:
  assumes "map_of env ''DEFINITIONS_H'' = None"
  shows "list_all (\<lambda>(n, v).
      expand (fold (\<lambda>(n, body). AList.update n body) (macro_definitions definitions_h) env)
        [Ident n] = [StrLit v]) (header_constants definitions_h)"
  by (simp add: header_constants_definitions_h macro_definitions_definitions_h
      AList.update_conv')

text \<open>
  C8, as stated, fails: the header defines the name \<open>DEFINITIONS_H\<close>, its include
  guard, whose replacement list is empty: it is no literal, and the name expands to no
  token at all.
\<close>

theorem include_guard_not_literal:
  "map_of (macro_definitions definitions_h) ''DEFINITIONS_H'' = Some []
   \<and> \<not> is_string_literal []
   \<and> macro_expansion definitions_h ''DEFINITIONS_H'' = Some []
   \<and> macro_string definitions_h ''DEFINITIONS_H'' = None"
  by (simp add: macro_definitions_definitions_h is_string_literal_def macro_string_def
      macro_expansion_def include_definitions_h)

text \<open>
  C8, amended: every definition in the file but the include guard \<open>DEFINITIONS_H\<close> is
  one string literal. Inclusion never fails; into whatever macro table the header is
  included, when the guard is not yet defined every constant of the header then expands
  to its one fixed string literal, the same for every table, and when the guard is
  already defined the table is left as it was.
\<close>

theorem constants_expand_to_fixed_literals:
  "(\<exists>env'. include_file definitions_h env = Inr env' \<and>
      (if map_of env ''DEFINITIONS_H'' = None
       then list_all (\<lambda>(n, v). expand env' [Ident n] = [StrLit v])
              (header_constants definitions_h)
       else env' = env))
   \<and> filter (\<lambda>(n, body). \<not> is_string_literal body) (macro_definitions definitions_h) =
       [(''DEFINITIONS_H'', [])]"
proof (intro conjI)
  show "\<exists>env'. include_file definitions_h env = Inr env' \<and>
      (if map_of env ''DEFINITIONS_H'' = None
       then list_all (\<lambda>(n, v). expand env' [Ident n] = [StrLit v])
              (header_constants definitions_h)
       else env' = env)"
  proof (cases "map_of env ''DEFINITIONS_H''")
    case None
    then show ?thesis
      using include_guard_undefined [OF None] fresh_inclusion_constants [OF None] by simp
  next
    case (Some body)
    then show ?thesis
      using include_guard_defined [OF Some] by simp
  qed
  show "filter (\<lambda>(n, body). \<not> is_string_literal body) (macro_definitions definitions_h) =
       [(''DEFINITIONS_H'', [])]"
    by (simp add: macro_definitions_definitions_h is_string_literal_def)
qed

text \<open>
  The theorem at a translation unit that has already defined \<open>F\<close> and \<open>path\<close> as
  macros of its own: after inclusion \<open>SIGNATURE_FLOAT\<close> and \<open>FIELD_PATH\<close> expand to the
  header's literals all the same.
\<close>

theorem constants_expand_to_fixed_literals_witness:
  "\<exists>env'. include_file definitions_h
       [(''F'', [Ident ''float'']), (''path'', [StrLit ''route''])] = Inr env'
     \<and> expand env' [Ident ''SIGNATURE_FLOAT''] = [StrLit ''F'']
     \<and> expand env' [Ident ''FIELD_PATH''] = [StrLit ''path'']"
  using constants_expand_to_fixed_literals
    [of "[(''F'', [Ident ''float'']), (''path'', [StrLit ''route''])]"]
  by (auto simp add: header_constants_definitions_h)

text \<open>
  C9: inclusion of the header is idempotent. Into whatever macro table, a first
  inclusion succeeds, and a second inclusion after it gives the very table the first
  one gave: it adds no definition and changes none.
\<close>

theorem inclusion_idempotent:
  "(\<exists>env'. include_file definitions_h env = Inr env')
   \<and> include_twice definitions_h env = include_file definitions_h env"
proof (cases "map_of env ''DEFINITIONS_H''")
  case None
  let ?env' = "fold (\<lambda>(n, body). AList.update n body) (macro_definitions definitions_h) env"
  have first: "include_file definitions_h env = Inr ?env'"
    by (rule include_guard_undefined [OF None])
  have "map_of ?env' ''DEFINITIONS_H'' = Some []"
    by (subst map_of_fold_update) (simp add: macro_definitions_definitions_h)
  then have "include_file definitions_h ?env' = Inr ?env'"
    by (rule include_guard_defined)
  with first show ?thesis
    by (simp add: include_twice_def)
next
  case (Some body)
  then have "include_file definitions_h env = Inr env"
    by (rule include_guard_defined)
  then show ?thesis
    by (simp add: include_twice_def)
qed

end
